theory Spec2Isabelle
  imports Complex_Main "HOL-Library.Multiset"
begin

section \<open>utils/api.ts: the data exchanged with the backend\<close>

text \<open>
  The interfaces of \<^verbatim>\<open>utils/api.ts\<close>. A JavaScript \<^verbatim>\<open>number\<close> that carries a
  count, a channel or a timestamp is an \<open>int\<close>; \<^verbatim>\<open>string | null\<close> is an option.
  The field \<^verbatim>\<open>length\<close> of \<^verbatim>\<open>PacketInfo\<close> is called \<open>pkt_length\<close>, since
  \<open>length\<close> is the length of a list in HOL.
\<close>

record WiFiNetwork =
  ssid :: string
  bssid :: string
  signal_quality :: int
  frequency :: int
  channel :: int
  security :: string
  avg_signal :: int
  beacon_count :: int
  last_seen :: int

record PacketInfo =
  src_mac :: string
  dst_mac :: string
  src_ip :: "string option"
  dst_ip :: "string option"
  src_port :: "int option"
  dst_port :: "int option"
  protocol :: string
  pkt_length :: int
  payload :: "string option"
  timestamp :: int

text \<open>
  The occupancy is a fraction; it is modelled by the real number the JavaScript
  \<^verbatim>\<open>number\<close> denotes (comparisons of two numbers that are not NaN are exact).
\<close>

record ChannelData =
  channel :: int
  occupancy :: real

text \<open>
  An \<^verbatim>\<open>await\<close> ends in one of two ways: the promise is rejected (the \<^verbatim>\<open>catch\<close>
  block runs) or resolved with a value. The backend behind \<^verbatim>\<open>invoke\<close> is not part
  of the model: each function below takes the outcome of its awaits as an argument.
\<close>

datatype 'a promise = Rejected string | Resolved 'a

datatype console_entry = ConsoleLog string | ConsoleError string

text \<open>What both components share of the browser window: the console.\<close>

record window =
  console :: "console_entry list"

text \<open>
  Every wrapper of \<^verbatim>\<open>api.ts\<close> has the shape
  \<^verbatim>\<open>try { return await invoke(..) } catch (error) { console.error(msg, error); throw error }\<close>:
  it passes the outcome on and writes one line to the console when the call was rejected.
\<close>

definition api_catch :: "string \<Rightarrow> 'a promise \<Rightarrow> console_entry list \<Rightarrow> console_entry list" where
  "api_catch msg r c = (case r of Rejected e \<Rightarrow> c @ [ConsoleError msg] | Resolved v \<Rightarrow> c)"

definition startPacketCapture :: "unit promise \<Rightarrow> console_entry list \<Rightarrow> console_entry list" where
  "startPacketCapture r c = api_catch ''Failed to start packet capture:'' r c"

definition stopPacketCapture :: "unit promise \<Rightarrow> console_entry list \<Rightarrow> console_entry list" where
  "stopPacketCapture r c = api_catch ''Failed to stop packet capture:'' r c"

definition getLatestPackets :: "PacketInfo list promise \<Rightarrow> console_entry list \<Rightarrow> console_entry list" where
  "getLatestPackets r c = api_catch ''Failed to get latest packets:'' r c"

text \<open>
  \<^verbatim>\<open>scanWifi\<close> also logs when it starts and when the scan has completed; the first
  line is written by \<open>scanWifi_called\<close>, before the call is awaited.
\<close>

definition scanWifi_called :: "console_entry list \<Rightarrow> console_entry list" where
  "scanWifi_called c = c @ [ConsoleLog ''Starting WiFi scan...'']"

definition scanWifi :: "WiFiNetwork list promise \<Rightarrow> console_entry list \<Rightarrow> console_entry list" where
  "scanWifi r c =
     (case r of
        Rejected e \<Rightarrow> c @ [ConsoleError ''Failed to scan Wi-Fi networks:'']
      | Resolved v \<Rightarrow> c @ [ConsoleLog ''Scan completed, found networks:''])"

definition getChannelData :: "ChannelData list promise \<Rightarrow> console_entry list \<Rightarrow> console_entry list" where
  "getChannelData r c = api_catch ''Failed to get channel data:'' r c"


section \<open>components/PacketSniffer.svelte\<close>

subsection \<open>State of the component\<close>

text \<open>
  The component's variables, in the order of their declaration, and the part of the
  browser they act on: the intervals of the window that are still active (each with its
  handle, its delay in milliseconds and the function it calls) and the last handle
  \<^verbatim>\<open>setInterval\<close> returned. Handles are positive, as in every browser.
  \<^verbatim>\<open>updateInterval\<close> is declared without a value: it is \<open>None\<close> (undefined) until
  the first assignment.
\<close>

datatype timer_handler = FetchLatestPackets

record interval =
  interval_id :: nat
  delay :: nat
  handler :: timer_handler

record PacketSniffer = window +
  allPackets :: "PacketInfo list"
  displayedPackets :: "PacketInfo list"
  selectedPacket :: "PacketInfo option"
  interfaceName :: string
  isCapturing :: bool
  error :: "string option"
  availableInterfaces :: "string list"
  updateInterval :: "nat option"
  currentPage :: int
  intervals :: "interval list"
  lastIntervalId :: nat

definition packetsPerPage :: int where
  "packetsPerPage = 10"

definition initial_sniffer :: PacketSniffer where
  "initial_sniffer =
     \<lparr>console = [], allPackets = [], displayedPackets = [], selectedPacket = None,
      interfaceName = [], isCapturing = False, error = None, availableInterfaces = [],
      updateInterval = None, currentPage = 1, intervals = [], lastIntervalId = 0\<rparr>"

subsection \<open>Timers of the window\<close>

definition setInterval :: "timer_handler \<Rightarrow> nat \<Rightarrow> PacketSniffer \<Rightarrow> nat \<times> PacketSniffer" where
  "setInterval f ms s =
     (let h = Suc (lastIntervalId s)
      in (h, s\<lparr>intervals := intervals s @ [\<lparr>interval_id = h, delay = ms, handler = f\<rparr>],
               lastIntervalId := h\<rparr>))"

definition clearInterval :: "nat \<Rightarrow> PacketSniffer \<Rightarrow> PacketSniffer" where
  "clearInterval h s = s\<lparr>intervals := filter (\<lambda>t. interval_id t \<noteq> h) (intervals s)\<rparr>"

definition active_ids :: "PacketSniffer \<Rightarrow> nat list" where
  "active_ids s = map interval_id (intervals s)"

subsection \<open>Pagination\<close>

text \<open>
  \<^verbatim>\<open>Array.prototype.slice(start, end)\<close> on integers: a negative index counts from the
  end, and both indices are clipped to the array.
\<close>

definition slice :: "'a list \<Rightarrow> int \<Rightarrow> int \<Rightarrow> 'a list" where
  "slice xs start fin =
     (let len = int (length xs);
          k = (if start < 0 then max (len + start) 0 else min start len);
          final = (if fin < 0 then max (len + fin) 0 else min fin len)
      in take (nat (final - k)) (drop (nat k) xs))"

definition updateDisplayedPackets :: "PacketSniffer \<Rightarrow> PacketSniffer" where
  "updateDisplayedPackets s =
     (let startIndex = (currentPage s - 1) * packetsPerPage
      in s\<lparr>displayedPackets := slice (allPackets s) startIndex (startIndex + packetsPerPage)\<rparr>)"

text \<open>
  The reactive declaration \<^verbatim>\<open>$: totalPages = Math.ceil(allPackets.length / packetsPerPage)\<close>:
  a value derived from the state. The quotient of an array length by 10 is never
  rounded to an integer it does not equal, so the ceiling is that of the exact quotient.
\<close>

definition totalPages :: "PacketSniffer \<Rightarrow> int" where
  "totalPages s = \<lceil>real (length (allPackets s)) / real_of_int packetsPerPage\<rceil>"

definition nextPage :: "PacketSniffer \<Rightarrow> PacketSniffer" where
  "nextPage s =
     (if currentPage s < \<lceil>real (length (allPackets s)) / real_of_int packetsPerPage\<rceil>
      then updateDisplayedPackets (s\<lparr>currentPage := currentPage s + 1\<rparr>)
      else s)"

definition prevPage :: "PacketSniffer \<Rightarrow> PacketSniffer" where
  "prevPage s =
     (if currentPage s > 1
      then updateDisplayedPackets (s\<lparr>currentPage := currentPage s - 1\<rparr>)
      else s)"

subsection \<open>Starting, stopping and polling\<close>

definition startCapture :: "unit promise \<Rightarrow> PacketSniffer \<Rightarrow> PacketSniffer" where
  "startCapture r s =
     (let s0 = s\<lparr>console := startPacketCapture r (console s)\<rparr>
      in case r of
           Resolved u \<Rightarrow>
             (let s1 = s0\<lparr>isCapturing := True, error := None,
                         console := console s0 @ [ConsoleLog ''Packet capture started'']\<rparr>;
                  (h, s2) = setInterval FetchLatestPackets 3000 s1
              in s2\<lparr>updateInterval := Some h\<rparr>)
         | Rejected e \<Rightarrow>
             s0\<lparr>console := console s0 @ [ConsoleError ''Failed to start packet capture:''],
                error := Some ''Failed to start packet capture. Please check your permissions and try again.''\<rparr>)"

text \<open>
  In \<^verbatim>\<open>if (updateInterval) clearInterval(updateInterval)\<close> the test is false for
  undefined and for 0.
\<close>

definition stopCapture :: "unit promise \<Rightarrow> PacketSniffer \<Rightarrow> PacketSniffer" where
  "stopCapture r s =
     (let s0 = s\<lparr>console := stopPacketCapture r (console s)\<rparr>
      in case r of
           Resolved u \<Rightarrow>
             (let s1 = s0\<lparr>isCapturing := False, error := None,
                         console := console s0 @ [ConsoleLog ''Packet capture stopped'']\<rparr>
              in case updateInterval s1 of
                   None \<Rightarrow> s1
                 | Some h \<Rightarrow> if h \<noteq> 0 then clearInterval h s1 else s1)
         | Rejected e \<Rightarrow>
             s0\<lparr>console := console s0 @ [ConsoleError ''Failed to stop packet capture:''],
                error := Some ''Failed to stop packet capture. The capture may have already been stopped.''\<rparr>)"

text \<open>
  \<^verbatim>\<open>[...allPackets, ...newPackets].sort((a, b) => b.timestamp - a.timestamp)\<close>:
  the sort of an array is stable, so it is the insertion sort on the negated timestamp.
\<close>

definition sort_newest_first :: "PacketInfo list \<Rightarrow> PacketInfo list" where
  "sort_newest_first ps = sort_key (\<lambda>p. - timestamp p) ps"

definition fetchLatestPackets :: "PacketInfo list promise \<Rightarrow> PacketSniffer \<Rightarrow> PacketSniffer" where
  "fetchLatestPackets r s =
     (let s0 = s\<lparr>console := getLatestPackets r (console s)\<rparr>
      in case r of
           Resolved newPackets \<Rightarrow>
             (if length newPackets > 0
              then updateDisplayedPackets
                     (s0\<lparr>allPackets := sort_newest_first (allPackets s0 @ newPackets)\<rparr>)
              else s0)
         | Rejected e \<Rightarrow>
             s0\<lparr>console := console s0 @ [ConsoleError ''Failed to fetch latest packets:'']\<rparr>)"

text \<open>
  One tick of the interval with handle \<open>h\<close>: the window calls the interval's function if
  the interval is still active, and does nothing for a handle that was cleared.
\<close>

definition run_handler :: "timer_handler \<Rightarrow> PacketInfo list promise \<Rightarrow> PacketSniffer \<Rightarrow> PacketSniffer" where
  "run_handler f r s = (case f of FetchLatestPackets \<Rightarrow> fetchLatestPackets r s)"

definition tick :: "nat \<Rightarrow> PacketInfo list promise \<Rightarrow> PacketSniffer \<Rightarrow> PacketSniffer" where
  "tick h r s =
     (case find (\<lambda>t. interval_id t = h) (intervals s) of
        None \<Rightarrow> s
      | Some t \<Rightarrow> run_handler (handler t) r s)"

subsection \<open>Changing the interface\<close>

text \<open>
  The reactive statement \<^verbatim>\<open>$: if (interfaceName) { ... }\<close> depends on
  \<^verbatim>\<open>interfaceName\<close> alone (the other variables are only assigned in it), so Svelte
  runs it when \<^verbatim>\<open>interfaceName\<close> has been assigned a value different from the one
  it had. The \<^verbatim>\<open>select\<close> element bound to \<^verbatim>\<open>interfaceName\<close> makes that
  assignment.
\<close>

definition interfaceName_reactive :: "PacketSniffer \<Rightarrow> PacketSniffer" where
  "interfaceName_reactive s =
     (if interfaceName s \<noteq> []
      then s\<lparr>allPackets := [], currentPage := 1, displayedPackets := [], selectedPacket := None\<rparr>
      else s)"

definition setInterface :: "string \<Rightarrow> PacketSniffer \<Rightarrow> PacketSniffer" where
  "setInterface name s =
     (if name = interfaceName s then s
      else interfaceName_reactive (s\<lparr>interfaceName := name\<rparr>))"



section \<open>routes/+page.svelte\<close>

subsection \<open>The map of unique networks\<close>

text \<open>
  \<^verbatim>\<open>uniqueNetworks\<close> is a JavaScript \<^verbatim>\<open>Map\<close>, which keeps its entries in the
  order in which their keys were first inserted: a list of pairs. \<^verbatim>\<open>set(key, value)\<close>
  replaces the value of a key that is present, in place, and appends the entry of a key
  that is not; \<^verbatim>\<open>values()\<close> lists the values in that order.
\<close>

fun Map_set :: "'k \<Rightarrow> 'v \<Rightarrow> ('k \<times> 'v) list \<Rightarrow> ('k \<times> 'v) list" where
  "Map_set k v [] = [(k, v)]"
| "Map_set k v ((k', v') # m) =
     (if k' = k then (k, v) # m else (k', v') # Map_set k v m)"

definition Map_values :: "('k \<times> 'v) list \<Rightarrow> 'v list" where
  "Map_values m = map snd m"

text \<open>
  The store's upsert is \<^verbatim>\<open>uniqueNetworks.set(network.bssid, network)\<close>, and
  \<^verbatim>\<open>list.forEach((network) => { uniqueNetworks.set(network.bssid, network); })\<close>
  does it for each record of a list, first to last.
\<close>

definition upsert :: "WiFiNetwork \<Rightarrow> (string \<times> WiFiNetwork) list \<Rightarrow> (string \<times> WiFiNetwork) list" where
  "upsert network m = Map_set (bssid network) network m"

definition set_each :: "WiFiNetwork list \<Rightarrow> (string \<times> WiFiNetwork) list \<Rightarrow> (string \<times> WiFiNetwork) list" where
  "set_each list m = fold upsert list m"

subsection \<open>State of the page\<close>

text \<open>
  The page's variables and the part of the event system they act on: the handles of
  the listeners of \<^verbatim>\<open>wifi_scan_progress\<close> that are registered, and the last handle
  given out. Every listener the page registers is the same closure over the page's
  variables.
\<close>

record Page = window +
  networks :: "WiFiNetwork list"
  selectedNetwork :: "WiFiNetwork option"
  channelData :: "ChannelData list"
  isNetworkDetailsVisible :: bool
  isScanning :: bool
  uniqueNetworks :: "(string \<times> WiFiNetwork) list"
  listeners :: "nat list"
  lastListenerId :: nat

definition initial_page :: Page where
  "initial_page =
     \<lparr>console = [], networks = [], selectedNetwork = None, channelData = [],
      isNetworkDetailsVisible = False, isScanning = False, uniqueNetworks = [],
      listeners = [], lastListenerId = 0\<rparr>"

definition listen :: "Page \<Rightarrow> nat \<times> Page" where
  "listen s =
     (let h = Suc (lastListenerId s)
      in (h, s\<lparr>listeners := listeners s @ [h], lastListenerId := h\<rparr>))"

definition unlisten :: "nat \<Rightarrow> Page \<Rightarrow> Page" where
  "unlisten h s = s\<lparr>listeners := filter (\<lambda>l. l \<noteq> h) (listeners s)\<rparr>"

subsection \<open>The scan\<close>

text \<open>The callback given to \<^verbatim>\<open>listen\<close>, run on the payload of one progress event.\<close>

definition on_scan_progress :: "WiFiNetwork list \<Rightarrow> Page \<Rightarrow> Page" where
  "on_scan_progress event_payload s =
     (let s1 = s\<lparr>console := console s @ [ConsoleLog ''Scan progress update received:'']\<rparr>;
          s2 = s1\<lparr>uniqueNetworks := set_each event_payload (uniqueNetworks s1)\<rparr>
      in s2\<lparr>networks := Map_values (uniqueNetworks s2)\<rparr>)"

text \<open>An event is delivered to every registered listener, one after the other.\<close>

definition emit_progress :: "WiFiNetwork list \<Rightarrow> Page \<Rightarrow> Page" where
  "emit_progress event_payload s =
     fold (\<lambda>h. on_scan_progress event_payload) (listeners s) s"

text \<open>
  What the world outside does during one run of \<^verbatim>\<open>performScan\<close>: the outcome of
  each await, the progress events that arrive while \<^verbatim>\<open>scanWifi()\<close> is awaited, and
  those that arrive later, while \<^verbatim>\<open>getChannelData(networks)\<close> is awaited.
\<close>

record scan_run =
  listen_outcome :: "unit promise"
  progress_events :: "WiFiNetwork list list"
  scanWifi_outcome :: "WiFiNetwork list promise"
  late_progress_events :: "WiFiNetwork list list"
  getChannelData_outcome :: "ChannelData list promise"

definition scan_catch :: "Page \<Rightarrow> Page" where
  "scan_catch s = s\<lparr>console := console s @ [ConsoleError ''Failed to update data:'']\<rparr>"

definition scan_finally :: "Page \<Rightarrow> Page" where
  "scan_finally s = s\<lparr>isScanning := False\<rparr>"

text \<open>
  \<^verbatim>\<open>performScan\<close>, statement by statement. A rejected await leaves the
  \<^verbatim>\<open>try\<close> block for the \<^verbatim>\<open>catch\<close> block; the \<^verbatim>\<open>finally\<close> block runs
  on every path but the early return. \<^verbatim>\<open>scanWifi()\<close> resolves with an array
  (its type is \<^verbatim>\<open>WiFiNetwork[]\<close>), so the test \<^verbatim>\<open>finalNetworks && ...\<close> is
  that of the length. The reactive block that refreshes
  \<^verbatim>\<open>channelData\<close> whenever \<^verbatim>\<open>networks\<close> changes is left out: it assigns
  \<^verbatim>\<open>channelData\<close> only.
\<close>

definition performScan :: "scan_run \<Rightarrow> Page \<Rightarrow> Page" where
  "performScan env s =
     (if isScanning s then s
      else
        let s1 = s\<lparr>isScanning := True, networks := [], uniqueNetworks := []\<rparr>
        in scan_finally
          (case listen_outcome env of
             Rejected e \<Rightarrow> scan_catch s1
           | Resolved u \<Rightarrow>
              (let (unlisten_handle, s2) = listen s1;
                   s3 = s2\<lparr>console := scanWifi_called (console s2)\<rparr>;
                   s4 = fold emit_progress (progress_events env) s3;
                   s5 = s4\<lparr>console := scanWifi (scanWifi_outcome env) (console s4)\<rparr>
               in case scanWifi_outcome env of
                    Rejected e \<Rightarrow> scan_catch s5
                  | Resolved finalNetworks \<Rightarrow>
                     (let s6 = s5\<lparr>console := console s5 @ [ConsoleLog ''Final scan results:'']\<rparr>;
                          s7 = (if length finalNetworks > 0
                                then (let s' = s6\<lparr>uniqueNetworks := set_each finalNetworks (uniqueNetworks s6)\<rparr>
                                      in s'\<lparr>networks := Map_values (uniqueNetworks s')\<rparr>)
                                else s6)
                      in if length (networks s7) > 0
                         then
                           (let s8 = fold emit_progress (late_progress_events env) s7;
                                s9 = s8\<lparr>console := getChannelData (getChannelData_outcome env) (console s8)\<rparr>
                            in case getChannelData_outcome env of
                                 Rejected e \<Rightarrow> scan_catch s9
                               | Resolved d \<Rightarrow> unlisten unlisten_handle (s9\<lparr>channelData := d\<rparr>))
                         else unlisten unlisten_handle s7))))"

text \<open>
  The last observation of an identity in a list of observations that is in the order
  of arrival: the first one from the end.
\<close>

definition last_observation :: "string \<Rightarrow> WiFiNetwork list \<Rightarrow> WiFiNetwork option" where
  "last_observation b obs = find (\<lambda>n. bssid n = b) (rev obs)"

text \<open>
  The invariant of the merge: the map has one entry per identity observed so far, and
  the entry of an identity is its last observation. \<open>scan_inv\<close> adds that the
  published array is the map's values.
\<close>

definition merged :: "(string \<times> WiFiNetwork) list \<Rightarrow> WiFiNetwork list \<Rightarrow> bool" where
  "merged m obs \<longleftrightarrow>
     distinct (map fst m) \<and> set (map fst m) = bssid ` set obs
     \<and> (\<forall>b. map_of m b = last_observation b obs)"

definition scan_inv :: "Page \<Rightarrow> WiFiNetwork list \<Rightarrow> bool" where
  "scan_inv s obs \<longleftrightarrow>
     merged (uniqueNetworks s) obs \<and> networks s = Map_values (uniqueNetworks s)"


section \<open>components/ChannelRating.svelte\<close>

text \<open>
  \<^verbatim>\<open>Array.from({ length: 13 }, (_, i) => ...)\<close> calls the function on the indices
  0 to 12. \<^verbatim>\<open>existing || {...}\<close> takes the object found (an object is truthy) and
  the default when \<^verbatim>\<open>find\<close> returned undefined.
\<close>

definition normalizedData :: "ChannelData list \<Rightarrow> ChannelData list" where
  "normalizedData chData =
     map (\<lambda>i. case find (\<lambda>d. channel d = int i + 1) chData of
                 Some existing \<Rightarrow> existing
               | None \<Rightarrow> \<lparr>channel = int i + 1, occupancy = 0\<rparr>)
         [0..<13]"

text \<open>
  \<^verbatim>\<open>[...normalizedData].sort(compare)\<close>: a stable sort, by ascending channel when
  \<^verbatim>\<open>sortBy\<close> is \<^verbatim>\<open>"channel"\<close> (the initial value) and by descending occupancy
  otherwise.
\<close>

definition sortedData :: "string \<Rightarrow> ChannelData list \<Rightarrow> ChannelData list" where
  "sortedData sortBy chData =
     (if sortBy = ''channel'' then sort_key channel (normalizedData chData)
      else sort_key (\<lambda>d. - occupancy d) (normalizedData chData))"

definition getChannelQuality :: "real \<Rightarrow> string" where
  "getChannelQuality occ =
     (if occ < 0.3 then ''Excellent''
      else if occ < 0.5 then ''Good''
      else if occ < 0.7 then ''Fair''
      else ''Poor'')"

text \<open>The last cell of a row of the table: the \<^verbatim>\<open>{#if}\<close> chain of the template.\<close>

definition recommendation :: "real \<Rightarrow> string" where
  "recommendation occ =
     (if occ < 0.3 then ''Recommended, low traffic''
      else if occ \<ge> 0.7 then ''Avoid - high congestion''
      else ''Usable with caution'')"


section \<open>Example states\<close>

definition example_packet :: "int \<Rightarrow> PacketInfo" where
  "example_packet t =
     \<lparr>src_mac = ''aa:aa:aa:aa:aa:aa'', dst_mac = ''bb:bb:bb:bb:bb:bb'', src_ip = None,
      dst_ip = None, src_port = None, dst_port = None, protocol = ''TCP'', pkt_length = 60,
      payload = None, timestamp = t\<rparr>"

text \<open>A session that was started on an interface, and the same after one poll.\<close>

definition capturing_sniffer :: PacketSniffer where
  "capturing_sniffer = startCapture (Resolved ()) (setInterface ''wlan0'' initial_sniffer)"

definition polled_sniffer :: PacketSniffer where
  "polled_sniffer =
     tick 1 (Resolved [example_packet 5, example_packet 9]) capturing_sniffer"

text \<open>An idle session that still shows the packets of a capture that was stopped.\<close>

definition stopped_sniffer :: PacketSniffer where
  "stopped_sniffer = stopCapture (Resolved ()) polled_sniffer"

text \<open>
  Two runs of a scan: one in which two progress records and a final record arrive, and
  one in which the final scan call is rejected after a progress event.
\<close>

definition example_network :: "string \<Rightarrow> int \<Rightarrow> WiFiNetwork" where
  "example_network b ch =
     \<lparr>ssid = ''net'', bssid = b, signal_quality = 70, frequency = 2437, channel = ch,
      security = ''WPA2'', avg_signal = -50, beacon_count = 1, last_seen = 0\<rparr>"

definition example_run :: scan_run where
  "example_run =
     \<lparr>listen_outcome = Resolved (),
      progress_events = [[example_network ''A'' 6, example_network ''B'' 6]],
      scanWifi_outcome = Resolved [example_network ''A'' 11],
      late_progress_events = [],
      getChannelData_outcome = Resolved [\<lparr>channel = 6, occupancy = 0.8\<rparr>]\<rparr>"

definition failing_run :: scan_run where
  "failing_run =
     \<lparr>listen_outcome = Resolved (),
      progress_events = [[example_network ''A'' 6]],
      scanWifi_outcome = Rejected ''scan failed'',
      late_progress_events = [],
      getChannelData_outcome = Resolved []\<rparr>"


section \<open>Properties of the capture session\<close>

subsection \<open>The example states, evaluated\<close>

lemma capturing_sniffer_eq:
  "capturing_sniffer =
     \<lparr>console = [ConsoleLog ''Packet capture started''], allPackets = [], displayedPackets = [],
      selectedPacket = None, interfaceName = ''wlan0'', isCapturing = True, error = None,
      availableInterfaces = [], updateInterval = Some 1, currentPage = 1,
      intervals = [\<lparr>interval_id = 1, delay = 3000, handler = FetchLatestPackets\<rparr>],
      lastIntervalId = 1\<rparr>"
  by (simp add: capturing_sniffer_def startCapture_def setInterface_def initial_sniffer_def
      interfaceName_reactive_def startPacketCapture_def api_catch_def setInterval_def)

lemma polled_sniffer_eq:
  "polled_sniffer =
     capturing_sniffer\<lparr>allPackets := [example_packet 9, example_packet 5],
                        displayedPackets := [example_packet 9, example_packet 5]\<rparr>"
  by (simp add: polled_sniffer_def capturing_sniffer_eq tick_def run_handler_def
      fetchLatestPackets_def getLatestPackets_def api_catch_def sort_newest_first_def
      updateDisplayedPackets_def slice_def packetsPerPage_def example_packet_def)

lemma stopped_sniffer_eq:
  "stopped_sniffer =
     polled_sniffer\<lparr>console := [ConsoleLog ''Packet capture started'',
                                  ConsoleLog ''Packet capture stopped''],
                     isCapturing := False, intervals := []\<rparr>"
  by (simp add: stopped_sniffer_def polled_sniffer_eq capturing_sniffer_eq stopCapture_def
      stopPacketCapture_def api_catch_def clearInterval_def)

subsection \<open>What each operation does to the state\<close>

lemma startCapture_Rejected:
  "startCapture (Rejected e) s =
     s\<lparr>console := console s @ [ConsoleError ''Failed to start packet capture:'',
                                ConsoleError ''Failed to start packet capture:''],
       error := Some ''Failed to start packet capture. Please check your permissions and try again.''\<rparr>"
  by (simp add: startCapture_def startPacketCapture_def api_catch_def)

lemma startCapture_Resolved:
  "startCapture (Resolved u) s =
     s\<lparr>console := console s @ [ConsoleLog ''Packet capture started''],
       isCapturing := True, error := None,
       intervals := intervals s @ [\<lparr>interval_id = Suc (lastIntervalId s), delay = 3000,
                                    handler = FetchLatestPackets\<rparr>],
       lastIntervalId := Suc (lastIntervalId s),
       updateInterval := Some (Suc (lastIntervalId s))\<rparr>"
  by (simp add: startCapture_def startPacketCapture_def api_catch_def setInterval_def Let_def)

lemma stopCapture_Rejected:
  "stopCapture (Rejected e) s =
     s\<lparr>console := console s @ [ConsoleError ''Failed to stop packet capture:'',
                                ConsoleError ''Failed to stop packet capture:''],
       error := Some ''Failed to stop packet capture. The capture may have already been stopped.''\<rparr>"
  by (simp add: stopCapture_def stopPacketCapture_def api_catch_def)

lemma stopCapture_Resolved:
  "stopCapture (Resolved u) s =
     s\<lparr>console := console s @ [ConsoleLog ''Packet capture stopped''],
       isCapturing := False, error := None,
       intervals := (case updateInterval s of
                       None \<Rightarrow> intervals s
                     | Some h \<Rightarrow> if h \<noteq> 0 then filter (\<lambda>t. interval_id t \<noteq> h) (intervals s)
                                else intervals s)\<rparr>"
  by (simp add: stopCapture_def stopPacketCapture_def api_catch_def clearInterval_def Let_def
      split: option.splits)

lemma fetchLatestPackets_Rejected:
  "fetchLatestPackets (Rejected e) s =
     s\<lparr>console := console s @ [ConsoleError ''Failed to get latest packets:'',
                                ConsoleError ''Failed to fetch latest packets:'']\<rparr>"
  by (simp add: fetchLatestPackets_def getLatestPackets_def api_catch_def)

lemma fetchLatestPackets_Resolved:
  "fetchLatestPackets (Resolved new) s =
     (if new = [] then s
      else s\<lparr>allPackets := sort_newest_first (allPackets s @ new),
             displayedPackets := slice (sort_newest_first (allPackets s @ new))
                ((currentPage s - 1) * 10) ((currentPage s - 1) * 10 + 10)\<rparr>)"
  by (simp add: fetchLatestPackets_def getLatestPackets_def api_catch_def
      updateDisplayedPackets_def packetsPerPage_def Let_def)

lemma mset_fetchLatestPackets:
  "mset (allPackets (fetchLatestPackets (Resolved new) s)) = mset (allPackets s) + mset new"
  by (simp add: fetchLatestPackets_Resolved sort_newest_first_def)

lemma sorted_fetchLatestPackets:
  "new \<noteq> [] \<Longrightarrow>
     sorted (map (\<lambda>p. - timestamp p) (allPackets (fetchLatestPackets (Resolved new) s)))"
  by (simp add: fetchLatestPackets_Resolved sort_newest_first_def)

text \<open>Every interval of the window calls \<^verbatim>\<open>fetchLatestPackets\<close>.\<close>

lemma tick_active:
  "h \<in> set (active_ids s) \<Longrightarrow> tick h r s = fetchLatestPackets r s"
proof -
  assume "h \<in> set (active_ids s)"
  then obtain t where "find (\<lambda>t. interval_id t = h) (intervals s) = Some t"
    by (cases "find (\<lambda>t. interval_id t = h) (intervals s)")
       (auto simp: active_ids_def find_None_iff)
  moreover have "handler t = FetchLatestPackets"
    by (cases "handler t") simp
  ultimately show ?thesis
    by (simp add: tick_def run_handler_def)
qed

lemma totalPages_div: "totalPages s = (int (length (allPackets s)) + 9) div 10"
proof -
  have "\<lceil>real (length (allPackets s)) / 10\<rceil> = \<lceil>real_of_int (int (length (allPackets s))) / real_of_int 10\<rceil>"
    by simp
  also have "\<dots> = - ((- int (length (allPackets s))) div 10)"
    unfolding ceiling_divide_eq_div by simp
  also have "\<dots> = (int (length (allPackets s)) + 9) div 10"
    by presburger
  finally show ?thesis
    by (simp add: totalPages_def packetsPerPage_def)
qed

subsection \<open>Stopping\<close>

text \<open>
  Claim C1 says that \<^verbatim>\<open>stop()\<close> makes the session idle and halts the polling timer
  whether the backend's stop call succeeds or fails. It does not: the assignments and
  \<^verbatim>\<open>clearInterval\<close> come after the await inside the \<^verbatim>\<open>try\<close> block, so a rejected
  call skips them. Counterexample to claim C1: a capturing session whose stop call is
  rejected is still capturing, its interval is still active, and the next tick still
  fills the buffer.
\<close>

theorem stopCapture_failure_counterexample:
  "isCapturing capturing_sniffer
   \<and> isCapturing (stopCapture (Rejected ''not active'') capturing_sniffer)
   \<and> intervals (stopCapture (Rejected ''not active'') capturing_sniffer) =
       [\<lparr>interval_id = 1, delay = 3000, handler = FetchLatestPackets\<rparr>]
   \<and> allPackets (tick 1 (Resolved [example_packet 5])
        (stopCapture (Rejected ''not active'') capturing_sniffer)) = [example_packet 5]"
  by (simp add: stopCapture_Rejected capturing_sniffer_eq tick_def run_handler_def
      fetchLatestPackets_Resolved sort_newest_first_def)

text \<open>
  Claim C1, amended. When the backend's stop call succeeds, \<^verbatim>\<open>stopCapture\<close> makes
  the session idle and clears the interval \<^verbatim>\<open>updateInterval\<close> refers to, starting no
  other; a second successful stop changes nothing but the console (it is idempotent on
  the local state). When the call fails, the capture status, the intervals and the
  packets are what they were, and the error message is set.
\<close>

theorem stopCapture_by_outcome:
  "(\<not> isCapturing (stopCapture (Resolved ()) s)
    \<and> (\<forall>h. updateInterval s = Some h \<longrightarrow> h \<noteq> 0 \<longrightarrow>
          h \<notin> set (active_ids (stopCapture (Resolved ()) s)))
    \<and> set (active_ids (stopCapture (Resolved ()) s)) \<subseteq> set (active_ids s)
    \<and> stopCapture (Resolved ()) (stopCapture (Resolved ()) s) =
        (stopCapture (Resolved ()) s)
          \<lparr>console := console (stopCapture (Resolved ()) s) @ [ConsoleLog ''Packet capture stopped'']\<rparr>)
   \<and> (isCapturing (stopCapture (Rejected e) s) = isCapturing s
      \<and> intervals (stopCapture (Rejected e) s) = intervals s
      \<and> allPackets (stopCapture (Rejected e) s) = allPackets s
      \<and> error (stopCapture (Rejected e) s) =
          Some ''Failed to stop packet capture. The capture may have already been stopped.'')"
  by (auto simp: stopCapture_Resolved stopCapture_Rejected active_ids_def split: option.splits)

theorem stopCapture_by_outcome_witness:
  "updateInterval capturing_sniffer = Some 1 \<and> (1::nat) \<noteq> 0
   \<and> 1 \<in> set (active_ids capturing_sniffer)
   \<and> \<not> isCapturing (stopCapture (Resolved ()) capturing_sniffer)
   \<and> 1 \<notin> set (active_ids (stopCapture (Resolved ()) capturing_sniffer))
   \<and> isCapturing (stopCapture (Rejected ''not active'') capturing_sniffer)
   \<and> intervals (stopCapture (Rejected ''not active'') capturing_sniffer) = intervals capturing_sniffer"
  using stopCapture_by_outcome [of capturing_sniffer "''not active''"]
  by (simp add: capturing_sniffer_eq active_ids_def)

subsection \<open>The number of pages\<close>

text \<open>
  Claim C2 says that the page count is \<open>max 1 \<lceil>L / 10\<rceil>\<close>, so 1 for an empty buffer.
  Counterexample to claim C2: for the empty buffer of the initial state the page
  count is 0.
\<close>

theorem totalPages_empty_counterexample:
  "length (allPackets initial_sniffer) = 0
   \<and> totalPages initial_sniffer = 0
   \<and> max 1 \<lceil>real (length (allPackets initial_sniffer)) / real_of_int packetsPerPage\<rceil> = 1"
  by (simp add: totalPages_def initial_sniffer_def)

text \<open>
  Claim C2, amended. For every buffer length \<open>L\<close> the page count is the ceiling of
  \<open>L / 10\<close>, which is \<open>(L + 9) div 10\<close>; it equals \<open>max 1 \<lceil>L / 10\<rceil>\<close> when the buffer
  is not empty, and it is 0 when the buffer is empty.
\<close>

theorem totalPages_ceiling:
  "totalPages s = (int (length (allPackets s)) + 9) div 10
   \<and> (length (allPackets s) > 0 \<longrightarrow>
        totalPages s = max 1 \<lceil>real (length (allPackets s)) / real_of_int packetsPerPage\<rceil>)
   \<and> (length (allPackets s) = 0 \<longrightarrow> totalPages s = 0)"
proof -
  have pos: "length (allPackets s) > 0 \<Longrightarrow> 1 \<le> totalPages s"
    unfolding totalPages_div by linarith
  have c: "\<lceil>real (length (allPackets s)) / real_of_int packetsPerPage\<rceil> = totalPages s"
    by (simp add: totalPages_def)
  have z: "length (allPackets s) = 0 \<Longrightarrow> totalPages s = 0"
    by (simp add: totalPages_div)
  show ?thesis
    unfolding c using pos z totalPages_div [of s] by (simp add: max_def)
qed

theorem totalPages_ceiling_witness:
  "length (allPackets (initial_sniffer\<lparr>allPackets := replicate 25 (example_packet 0)\<rparr>)) > 0
   \<and> totalPages (initial_sniffer\<lparr>allPackets := replicate 25 (example_packet 0)\<rparr>) = 3
   \<and> length (allPackets initial_sniffer) = 0 \<and> totalPages initial_sniffer = 0"
  using totalPages_ceiling [of "initial_sniffer\<lparr>allPackets := replicate 25 (example_packet 0)\<rparr>"]
        totalPages_ceiling [of initial_sniffer]
  by (simp add: initial_sniffer_def)

subsection \<open>Changing the interface\<close>

text \<open>
  Claim C3 says that a change of interface stops the polling timer while capturing and
  leaves the packets alone while idle. Counterexample to claim C3: in a capturing
  session the change leaves the interval active and the session capturing, and in an
  idle session that still shows two packets the change empties the buffer and the
  displayed page.
\<close>

theorem setInterface_counterexample:
  "isCapturing polled_sniffer
   \<and> intervals (setInterface ''wlan1'' polled_sniffer) = intervals polled_sniffer
   \<and> intervals polled_sniffer = [\<lparr>interval_id = 1, delay = 3000, handler = FetchLatestPackets\<rparr>]
   \<and> isCapturing (setInterface ''wlan1'' polled_sniffer)
   \<and> \<not> isCapturing stopped_sniffer
   \<and> allPackets stopped_sniffer = [example_packet 9, example_packet 5]
   \<and> displayedPackets stopped_sniffer = [example_packet 9, example_packet 5]
   \<and> allPackets (setInterface ''wlan1'' stopped_sniffer) = []
   \<and> displayedPackets (setInterface ''wlan1'' stopped_sniffer) = []"
  by (simp add: setInterface_def interfaceName_reactive_def stopped_sniffer_eq polled_sniffer_eq
      capturing_sniffer_eq)

text \<open>
  Claim C3, amended. Changing the selected interface to another, non-empty name
  discards the accumulated and the displayed packets, resets the page to 1 and the
  selection to none, whether the session is capturing or idle; the capture status and
  the polling timer are what they were.
\<close>

theorem setInterface_resets_packets:
  "name \<noteq> interfaceName s \<Longrightarrow> name \<noteq> [] \<Longrightarrow>
     setInterface name s =
       s\<lparr>interfaceName := name, allPackets := [], currentPage := 1,
         displayedPackets := [], selectedPacket := None\<rparr>
     \<and> isCapturing (setInterface name s) = isCapturing s
     \<and> intervals (setInterface name s) = intervals s
     \<and> updateInterval (setInterface name s) = updateInterval s"
  by (simp add: setInterface_def interfaceName_reactive_def)

theorem setInterface_resets_packets_witness:
  "''wlan1'' \<noteq> interfaceName polled_sniffer \<and> ''wlan1'' \<noteq> []
   \<and> allPackets polled_sniffer = [example_packet 9, example_packet 5]
   \<and> allPackets (setInterface ''wlan1'' polled_sniffer) = []
   \<and> displayedPackets (setInterface ''wlan1'' polled_sniffer) = []
   \<and> isCapturing (setInterface ''wlan1'' polled_sniffer)
   \<and> intervals (setInterface ''wlan1'' polled_sniffer) =
       [\<lparr>interval_id = 1, delay = 3000, handler = FetchLatestPackets\<rparr>]"
  using setInterface_resets_packets [of "''wlan1''" polled_sniffer]
  by (simp add: polled_sniffer_eq capturing_sniffer_eq)

subsection \<open>A failing poll\<close>

text \<open>
  Claim C8. A poll tick of an active interval during a capturing session whose call to
  the backend is rejected only writes to the console: the error is logged by
  \<^verbatim>\<open>console.error\<close>, the session is still capturing, the packet buffer and the
  displayed page are what they were, and the interval is still active, so the next tick
  will come.
\<close>

theorem poll_failure_swallowed:
  "isCapturing s \<Longrightarrow> h \<in> set (active_ids s) \<Longrightarrow>
     tick h (Rejected e) s =
       s\<lparr>console := console s @ [ConsoleError ''Failed to get latest packets:'',
                                  ConsoleError ''Failed to fetch latest packets:'']\<rparr>
     \<and> isCapturing (tick h (Rejected e) s)
     \<and> allPackets (tick h (Rejected e) s) = allPackets s
     \<and> displayedPackets (tick h (Rejected e) s) = displayedPackets s
     \<and> intervals (tick h (Rejected e) s) = intervals s
     \<and> h \<in> set (active_ids (tick h (Rejected e) s))"
  by (simp add: tick_active fetchLatestPackets_Rejected active_ids_def)

theorem poll_failure_swallowed_witness:
  "isCapturing capturing_sniffer \<and> 1 \<in> set (active_ids capturing_sniffer)
   \<and> tick 1 (Rejected ''timeout'') capturing_sniffer =
       capturing_sniffer\<lparr>console := [ConsoleLog ''Packet capture started'',
          ConsoleError ''Failed to get latest packets:'',
          ConsoleError ''Failed to fetch latest packets:'']\<rparr>
   \<and> isCapturing (tick 1 (Rejected ''timeout'') capturing_sniffer)
   \<and> allPackets (tick 1 (Rejected ''timeout'') capturing_sniffer) = []
   \<and> 1 \<in> set (active_ids (tick 1 (Rejected ''timeout'') capturing_sniffer))"
  using poll_failure_swallowed [of capturing_sniffer 1 "''timeout''"]
  by (simp add: capturing_sniffer_eq active_ids_def)

subsection \<open>Starting\<close>

text \<open>
  Claim C9. For an idle session: if the backend rejects the start request, the session
  is still idle, no interval was created and the error message is set; if it accepts,
  the session is capturing and one interval was created, of 3000 milliseconds (3
  seconds), whose tick puts the packets it retrieved into the buffer: the buffer then
  holds what it held and the new packets, and is sorted newest first.
\<close>

theorem startCapture_rejected_or_polling:
  "\<not> isCapturing s \<Longrightarrow>
     (\<not> isCapturing (startCapture (Rejected e) s)
      \<and> intervals (startCapture (Rejected e) s) = intervals s
      \<and> updateInterval (startCapture (Rejected e) s) = updateInterval s
      \<and> error (startCapture (Rejected e) s) \<noteq> None)
   \<and> (isCapturing (startCapture (Resolved ()) s)
      \<and> intervals (startCapture (Resolved ()) s) =
          intervals s @ [\<lparr>interval_id = Suc (lastIntervalId s), delay = 3 * 1000,
                          handler = FetchLatestPackets\<rparr>]
      \<and> updateInterval (startCapture (Resolved ()) s) = Some (Suc (lastIntervalId s))
      \<and> mset (allPackets (tick (Suc (lastIntervalId s)) (Resolved new) (startCapture (Resolved ()) s)))
          = mset (allPackets s) + mset new
      \<and> (new \<noteq> [] \<longrightarrow>
          sorted (map (\<lambda>p. - timestamp p)
            (allPackets (tick (Suc (lastIntervalId s)) (Resolved new) (startCapture (Resolved ()) s))))))"
proof -
  assume idle: "\<not> isCapturing s"
  let ?s' = "startCapture (Resolved ()) s"
  have act: "Suc (lastIntervalId s) \<in> set (active_ids ?s')"
    by (simp add: startCapture_Resolved active_ids_def)
  have t: "tick (Suc (lastIntervalId s)) (Resolved new) ?s' = fetchLatestPackets (Resolved new) ?s'"
    by (rule tick_active [OF act])
  have pk: "allPackets ?s' = allPackets s"
    by (simp add: startCapture_Resolved)
  show ?thesis
    using idle
    by (simp add: t mset_fetchLatestPackets sorted_fetchLatestPackets pk)
       (simp add: startCapture_Resolved startCapture_Rejected)
qed

theorem startCapture_rejected_or_polling_witness:
  "\<not> isCapturing initial_sniffer
   \<and> \<not> isCapturing (startCapture (Rejected ''denied'') initial_sniffer)
   \<and> intervals (startCapture (Rejected ''denied'') initial_sniffer) = []
   \<and> isCapturing (startCapture (Resolved ()) initial_sniffer)
   \<and> intervals (startCapture (Resolved ()) initial_sniffer) =
        [\<lparr>interval_id = 1, delay = 3000, handler = FetchLatestPackets\<rparr>]
   \<and> mset (allPackets (tick 1 (Resolved [example_packet 5, example_packet 9])
        (startCapture (Resolved ()) initial_sniffer))) = {#example_packet 5, example_packet 9#}
   \<and> [example_packet 5, example_packet 9] \<noteq> []
   \<and> sorted (map (\<lambda>p. - timestamp p)
        (allPackets (tick 1 (Resolved [example_packet 5, example_packet 9])
           (startCapture (Resolved ()) initial_sniffer))))"
  using startCapture_rejected_or_polling
     [of initial_sniffer "''denied''" "[example_packet 5, example_packet 9]"]
  by (simp add: initial_sniffer_def)


section \<open>Properties of the scan\<close>

subsection \<open>The map\<close>

lemma find_Some_holds: "find P xs = Some x \<Longrightarrow> P x \<and> x \<in> set xs"
  by (induction xs) (auto split: if_splits)

lemma find_app:
  "find P (xs @ ys) = (case find P xs of None \<Rightarrow> find P ys | Some x \<Rightarrow> Some x)"
  by (induction xs) auto

lemma map_of_Map_set: "map_of (Map_set k v m) = (map_of m)(k \<mapsto> v)"
  by (induction m) (auto simp: fun_eq_iff)

lemma keys_Map_set:
  "map fst (Map_set k v m) = (if k \<in> fst ` set m then map fst m else map fst m @ [k])"
  by (induction m) (auto simp: rev_image_eqI)

lemma Map_set_twice: "Map_set k v (Map_set k v m) = Map_set k v m"
  by (induction m) auto

text \<open>
  Claim C10. Upserting a record and then the same record again leaves the store as it
  was after the first upsert: the entry of the record's identity holds the record, and
  a store without duplicate identities has none afterwards.
\<close>

theorem upsert_idempotent:
  "upsert r (upsert r m) = upsert r m
   \<and> map_of (upsert r m) (bssid r) = Some r
   \<and> (distinct (map fst m) \<longrightarrow> distinct (map fst (upsert r (upsert r m))))"
  by (auto simp: upsert_def Map_set_twice map_of_Map_set keys_Map_set)

theorem upsert_idempotent_witness:
  "distinct (map fst [(''A'', example_network ''A'' 6)])
   \<and> upsert (example_network ''A'' 11) (upsert (example_network ''A'' 11) [(''A'', example_network ''A'' 6)])
       = [(''A'', example_network ''A'' 11)]
   \<and> upsert (example_network ''A'' 11) [(''A'', example_network ''A'' 6)] = [(''A'', example_network ''A'' 11)]
   \<and> distinct (map fst (upsert (example_network ''A'' 11)
        (upsert (example_network ''A'' 11) [(''A'', example_network ''A'' 6)])))"
  using upsert_idempotent [of "example_network ''A'' 11" "[(''A'', example_network ''A'' 6)]"]
  by (simp add: upsert_def example_network_def)

subsection \<open>The invariant of the merge\<close>

lemma last_observation_snoc:
  "last_observation b (obs @ [n]) = (if bssid n = b then Some n else last_observation b obs)"
  by (simp add: last_observation_def)

lemma last_observation_bssid: "last_observation b obs = Some n \<Longrightarrow> bssid n = b \<and> n \<in> set obs"
  using find_Some_holds [of "\<lambda>n. bssid n = b" "rev obs" n]
  by (simp add: last_observation_def)

lemma last_observation_twice:
  "last_observation b ((obs @ batch) @ batch) = last_observation b (obs @ batch)"
  by (simp add: last_observation_def find_app split: option.splits)

lemma merged_Nil: "merged [] []"
  by (simp add: merged_def last_observation_def)

lemma merged_upsert: "merged m obs \<Longrightarrow> merged (upsert n m) (obs @ [n])"
  by (auto simp: merged_def upsert_def map_of_Map_set keys_Map_set last_observation_snoc)

lemma merged_set_each: "merged m obs \<Longrightarrow> merged (set_each batch m) (obs @ batch)"
proof (induction batch arbitrary: m obs)
  case Nil
  then show ?case by (simp add: set_each_def)
next
  case (Cons n batch)
  from Cons.IH [OF merged_upsert [OF Cons.prems, of n]]
  show ?case by (simp add: set_each_def)
qed

lemma merged_set_each_again:
  assumes "merged m (obs @ batch)"
  shows "merged (set_each batch m) (obs @ batch)"
proof -
  have "merged (set_each batch m) ((obs @ batch) @ batch)"
    using assms by (rule merged_set_each)
  then show ?thesis
    unfolding merged_def last_observation_twice by auto
qed

lemma merged_snapshot:
  assumes "merged m obs"
  shows "map bssid (Map_values m) = map fst m"
    and "\<forall>n \<in> set (Map_values m). last_observation (bssid n) obs = Some n"
proof -
  have entry: "last_observation k obs = Some v \<and> bssid v = k" if "(k, v) \<in> set m" for k v
  proof -
    from assms have "distinct (map fst m)"
      by (simp add: merged_def)
    with that have "map_of m k = Some v"
      by simp
    with assms have "last_observation k obs = Some v"
      by (simp add: merged_def)
    then show ?thesis
      by (simp add: last_observation_bssid)
  qed
  then show "map bssid (Map_values m) = map fst m"
    by (auto simp: Map_values_def)
  from entry show "\<forall>n \<in> set (Map_values m). last_observation (bssid n) obs = Some n"
    by (auto simp: Map_values_def)
qed

text \<open>
  A progress event is delivered once per registered listener; after the first
  delivery the others change nothing but the console.
\<close>

lemma on_scan_progress_first:
  "merged (uniqueNetworks s) obs \<Longrightarrow> scan_inv (on_scan_progress batch s) (obs @ batch)"
  by (simp add: on_scan_progress_def scan_inv_def Let_def merged_set_each)

lemma on_scan_progress_again:
  "scan_inv s (obs @ batch) \<Longrightarrow> scan_inv (on_scan_progress batch s) (obs @ batch)"
  by (simp add: on_scan_progress_def scan_inv_def Let_def merged_set_each_again)

lemma listeners_on_scan_progress: "listeners (on_scan_progress batch s) = listeners s"
  by (simp add: on_scan_progress_def Let_def)

lemma fold_on_scan_progress_again:
  "scan_inv s (obs @ batch) \<Longrightarrow>
     scan_inv (fold (\<lambda>h. on_scan_progress batch) hs s) (obs @ batch)"
  by (induction hs arbitrary: s) (simp_all add: on_scan_progress_again)

lemma listeners_fold_on_scan_progress:
  "listeners (fold (\<lambda>h. on_scan_progress batch) hs s) = listeners s"
  by (induction hs arbitrary: s) (simp_all add: listeners_on_scan_progress)

lemma listeners_emit_progress: "listeners (emit_progress batch s) = listeners s"
  by (simp add: emit_progress_def listeners_fold_on_scan_progress)

lemma emit_progress_inv:
  assumes "scan_inv s obs" and "listeners s \<noteq> []"
  shows "scan_inv (emit_progress batch s) (obs @ batch)"
proof -
  from assms(2) obtain h hs where hs: "listeners s = h # hs"
    by (cases "listeners s") auto
  from assms(1) have "merged (uniqueNetworks s) obs"
    by (simp add: scan_inv_def)
  then have "scan_inv (on_scan_progress batch s) (obs @ batch)"
    by (rule on_scan_progress_first)
  then show ?thesis
    by (simp add: emit_progress_def hs fold_on_scan_progress_again)
qed

lemma fold_emit_progress_inv:
  "scan_inv s obs \<Longrightarrow> listeners s \<noteq> [] \<Longrightarrow>
     scan_inv (fold emit_progress batches s) (obs @ concat batches)"
proof (induction batches arbitrary: s obs)
  case Nil
  then show ?case by simp
next
  case (Cons batch batches)
  have "scan_inv (fold emit_progress batches (emit_progress batch s)) ((obs @ batch) @ concat batches)"
    using Cons.prems by (intro Cons.IH emit_progress_inv) (simp_all add: listeners_emit_progress)
  then show ?case by simp
qed

lemma performScan_snapshot:
  assumes "\<not> isScanning s" and "listen_outcome env = Resolved ()"
    and "scanWifi_outcome env = Resolved final" and "late_progress_events env = []"
  shows "scan_inv (performScan env s) (concat (progress_events env) @ final)"
proof -
  define s3 where "s3 = s\<lparr>isScanning := True, networks := [], uniqueNetworks := [],
      listeners := listeners s @ [Suc (lastListenerId s)],
      lastListenerId := Suc (lastListenerId s),
      console := scanWifi_called (console s)\<rparr>"
  define s4 where "s4 = fold emit_progress (progress_events env) s3"
  define m7 where "m7 = (if length final > 0 then set_each final (uniqueNetworks s4) else uniqueNetworks s4)"
  have "scan_inv s3 []" and l3: "listeners s3 \<noteq> []"
    by (simp_all add: s3_def scan_inv_def merged_Nil Map_values_def)
  then have inv4: "scan_inv s4 (concat (progress_events env))"
    unfolding s4_def using fold_emit_progress_inv [of s3 "[]"] by simp
  then have m7: "merged m7 (concat (progress_events env) @ final)"
    by (auto simp: m7_def scan_inv_def merged_set_each)
  have n: "networks (performScan env s) = Map_values m7"
    and u: "uniqueNetworks (performScan env s) = m7"
    using assms inv4
    by (simp_all add: performScan_def listen_def Let_def scan_finally_def scan_catch_def
        unlisten_def m7_def s4_def s3_def scan_inv_def split: promise.splits)
  show ?thesis
    by (simp add: scan_inv_def n u m7)
qed

lemma performScan_example_run:
  "networks (performScan example_run initial_page) =
     [example_network ''A'' 11, example_network ''B'' 6]"
  by (simp add: performScan_def example_run_def initial_page_def listen_def emit_progress_def
      on_scan_progress_def set_each_def upsert_def Map_values_def scan_finally_def unlisten_def
      scanWifi_def scanWifi_called_def getChannelData_def api_catch_def example_network_def Let_def)

subsection \<open>The snapshot of a scan\<close>

text \<open>
  Claim C5. A scan that starts from an idle page, whose listener is registered and whose
  final call resolves, receives a sequence of progress batches followed by the final
  batch. The snapshot \<^verbatim>\<open>networks\<close> it leaves holds exactly one record per identity
  (BSSID) observed in these batches, and each record is the last observation of its
  identity in the order of arrival.
\<close>

theorem scan_last_write_wins:
  "\<not> isScanning s \<Longrightarrow> listen_outcome env = Resolved () \<Longrightarrow>
   scanWifi_outcome env = Resolved final \<Longrightarrow> late_progress_events env = [] \<Longrightarrow>
     distinct (map bssid (networks (performScan env s)))
     \<and> set (map bssid (networks (performScan env s))) =
         set (map bssid (concat (progress_events env) @ final))
     \<and> (\<forall>n \<in> set (networks (performScan env s)).
          last_observation (bssid n) (concat (progress_events env) @ final) = Some n)"
proof -
  assume "\<not> isScanning s" and "listen_outcome env = Resolved ()"
    and "scanWifi_outcome env = Resolved final" and "late_progress_events env = []"
  then have inv: "scan_inv (performScan env s) (concat (progress_events env) @ final)"
    by (rule performScan_snapshot)
  let ?m = "uniqueNetworks (performScan env s)"
  let ?obs = "concat (progress_events env) @ final"
  from inv have m: "merged ?m ?obs" and n: "networks (performScan env s) = Map_values ?m"
    by (simp_all add: scan_inv_def)
  have keys: "map bssid (networks (performScan env s)) = map fst ?m"
    unfolding n by (rule merged_snapshot(1) [OF m])
  have "distinct (map fst ?m)" and "set (map fst ?m) = set (map bssid ?obs)"
    using m by (auto simp: merged_def)
  moreover have "\<forall>n \<in> set (networks (performScan env s)). last_observation (bssid n) ?obs = Some n"
    unfolding n by (rule merged_snapshot(2) [OF m])
  ultimately show ?thesis
    by (simp only: keys)
qed

theorem scan_last_write_wins_witness:
  "\<not> isScanning initial_page \<and> listen_outcome example_run = Resolved ()
   \<and> scanWifi_outcome example_run = Resolved [example_network ''A'' 11]
   \<and> late_progress_events example_run = []
   \<and> networks (performScan example_run initial_page) =
       [example_network ''A'' 11, example_network ''B'' 6]
   \<and> distinct (map bssid (networks (performScan example_run initial_page)))
   \<and> last_observation (bssid (example_network ''A'' 11))
         [example_network ''A'' 6, example_network ''B'' 6, example_network ''A'' 11] =
       Some (example_network ''A'' 11)
   \<and> last_observation (bssid (example_network ''B'' 6))
         [example_network ''A'' 6, example_network ''B'' 6, example_network ''A'' 11] =
       Some (example_network ''B'' 6)"
  using scan_last_write_wins [of initial_page example_run "[example_network ''A'' 11]"]
  by (simp add: performScan_example_run) (simp add: example_run_def initial_page_def)

subsection \<open>The subscription\<close>

text \<open>
  Claim C4 says that the progress listener is unsubscribed when the final scan call
  completes, whether it succeeds or fails. The code calls \<^verbatim>\<open>unlisten()\<close> at the end
  of the \<^verbatim>\<open>try\<close> block only, not in the \<^verbatim>\<open>finally\<close> block that resets
  \<^verbatim>\<open>isScanning\<close>: in the run whose final scan call is rejected, the listener that
  the run registered (handle 1) is still registered when the run is over and the page is
  idle again, while the run that succeeds leaves none.
\<close>

theorem scan_failure_keeps_listener:
  "listen_outcome failing_run = Resolved ()
   \<and> scanWifi_outcome failing_run = Rejected ''scan failed''
   \<and> listeners initial_page = []
   \<and> listeners (performScan failing_run initial_page) = [1]
   \<and> \<not> isScanning (performScan failing_run initial_page)
   \<and> listeners (performScan example_run initial_page) = []"
  by (simp add: performScan_def example_run_def failing_run_def initial_page_def listen_def
      emit_progress_def on_scan_progress_def set_each_def upsert_def Map_values_def
      scan_finally_def scan_catch_def unlisten_def scanWifi_def scanWifi_called_def
      getChannelData_def api_catch_def example_network_def Let_def)


section \<open>Properties of the channel rating\<close>

lemma channel_entry:
  "channel (case find (\<lambda>d. channel d = int i + 1) chData of
              Some existing \<Rightarrow> existing
            | None \<Rightarrow> \<lparr>channel = int i + 1, occupancy = 0\<rparr>) = int i + 1"
  by (auto split: option.splits dest: find_Some_holds)

lemma channels_1_to_13: "map (\<lambda>i. int i + 1) [0..<13] = [1..13]"
  by code_simp

lemma channel_normalizedData: "map channel (normalizedData chData) = [1..13]"
  by (simp only: normalizedData_def map_map o_def channel_entry channels_1_to_13)

lemma length_normalizedData: "length (normalizedData chData) = 13"
  by (simp add: normalizedData_def)

lemma sortedData_channel: "sortedData ''channel'' chData = normalizedData chData"
  by (simp add: sortedData_def sort_key_id_if_sorted channel_normalizedData)

lemma normalizedData_absent:
  assumes "1 \<le> c" and "c \<le> 13" and "c \<notin> channel ` set chData"
  shows "normalizedData chData ! nat (c - 1) = \<lparr>channel = c, occupancy = 0\<rparr>"
proof -
  define i where "i = nat (c - 1)"
  have i: "i < 13" and c: "int i + 1 = c"
    using assms by (simp_all add: i_def)
  have "find (\<lambda>d. channel d = c) chData = None"
    using assms(3) by (auto simp: find_None_iff)
  then have "normalizedData chData ! i = \<lparr>channel = c, occupancy = 0\<rparr>"
    using i by (simp add: normalizedData_def c)
  then show ?thesis
    by (simp only: i_def)
qed

text \<open>
  Claim C6. For every list of channel data, whatever its length and its channels, the
  normalized data has exactly 13 entries, whose channels are 1 to 13 in ascending
  order (sorting by channel, the initial sort, leaves it as it is), and the entry of a
  channel from 1 to 13 that has no entry in the input has occupancy 0.
\<close>

theorem normalizedData_total:
  "length (normalizedData chData) = 13
   \<and> map channel (normalizedData chData) = [1..13]
   \<and> sortedData ''channel'' chData = normalizedData chData
   \<and> (\<forall>c \<in> {1..13}. c \<notin> channel ` set chData \<longrightarrow>
        normalizedData chData ! nat (c - 1) = \<lparr>channel = c, occupancy = 0\<rparr>)"
  by (simp add: length_normalizedData channel_normalizedData sortedData_channel
      normalizedData_absent)

theorem normalizedData_total_witness:
  "length (normalizedData [\<lparr>channel = 6, occupancy = 0.8\<rparr>, \<lparr>channel = 14, occupancy = 0.5\<rparr>]) = 13
   \<and> (1::int) \<in> {1..13}
   \<and> 1 \<notin> channel ` set [\<lparr>channel = 6, occupancy = 0.8\<rparr>, \<lparr>channel = 14, occupancy = 0.5\<rparr>]
   \<and> normalizedData [\<lparr>channel = 6, occupancy = 0.8\<rparr>, \<lparr>channel = 14, occupancy = 0.5\<rparr>] ! nat (1 - 1)
       = \<lparr>channel = 1, occupancy = 0\<rparr>
   \<and> normalizedData [\<lparr>channel = 6, occupancy = 0.8\<rparr>, \<lparr>channel = 14, occupancy = 0.5\<rparr>] ! 5
       = \<lparr>channel = 6, occupancy = 0.8\<rparr>"
  using normalizedData_total [of "[\<lparr>channel = 6, occupancy = 0.8\<rparr>, \<lparr>channel = 14, occupancy = 0.5\<rparr>]"]
  by (simp add: normalizedData_def)

text \<open>
  Claim C7. For every occupancy \<open>x\<close> from 0 to 1 the quality is Excellent exactly when
  \<open>x < 0.3\<close>, Good exactly when \<open>0.3 \<le> x < 0.5\<close>, Fair exactly when
  \<open>0.5 \<le> x < 0.7\<close> and Poor exactly when \<open>x \<ge> 0.7\<close>; the recommendation is
  "Recommended" exactly when \<open>x < 0.3\<close>, "Avoid" exactly when \<open>x \<ge> 0.7\<close>, and
  "Usable with caution" otherwise.
\<close>

theorem quality_thresholds:
  "0 \<le> x \<Longrightarrow> x \<le> 1 \<Longrightarrow>
     (getChannelQuality x = ''Excellent'' \<longleftrightarrow> x < 0.3)
   \<and> (getChannelQuality x = ''Good'' \<longleftrightarrow> 0.3 \<le> x \<and> x < 0.5)
   \<and> (getChannelQuality x = ''Fair'' \<longleftrightarrow> 0.5 \<le> x \<and> x < 0.7)
   \<and> (getChannelQuality x = ''Poor'' \<longleftrightarrow> x \<ge> 0.7)
   \<and> (recommendation x = ''Recommended, low traffic'' \<longleftrightarrow> x < 0.3)
   \<and> (recommendation x = ''Avoid - high congestion'' \<longleftrightarrow> x \<ge> 0.7)
   \<and> (recommendation x = ''Usable with caution'' \<longleftrightarrow> 0.3 \<le> x \<and> x < 0.7)"
  by (simp add: getChannelQuality_def recommendation_def)

theorem quality_thresholds_witness:
  "(0::real) \<le> 0.8 \<and> (0.8::real) \<le> 1
   \<and> getChannelQuality 0.8 = ''Poor'' \<and> recommendation 0.8 = ''Avoid - high congestion''
   \<and> (0::real) \<le> 0.3 \<and> (0.3::real) \<le> 1
   \<and> getChannelQuality 0.3 = ''Good'' \<and> recommendation 0.3 = ''Usable with caution''
   \<and> getChannelQuality 0 = ''Excellent'' \<and> recommendation 0 = ''Recommended, low traffic''"
  using quality_thresholds [of "0.8"] quality_thresholds [of "0.3"] quality_thresholds [of 0]
  by simp

end
